theory Spec2Isabelle
  imports Complex_Main "HOL-Library.Word" "HOL-Library.Sublist"
begin

text \<open>
  The webhook of \<open>src/api/telegram/webhook.js\<close>: a handler that takes a Telegram
  update, asks the Gemini API for a reply and sends it to the chat. The file holds two
  variants of the handler and of its helpers, lines 1-99 (variant A) and lines 100-239
  (variant B); both are modelled, and every statement is made for both.

  A run is a pure function of the platform (what \<open>fetch\<close> and \<open>JSON.parse\<close> answer), the
  environment and the request; it gives the response and the list of observable events
  (outbound calls and \<open>console.error\<close> lines) in order. An exception is the \<open>Inl\<close> of a
  sum.
\<close>

section \<open>JavaScript strings and values\<close>

text \<open>
  A JavaScript string is a sequence of 16-bit code units. ASCII literals of the source are
  written with \<open>js\<close>; the two non-ASCII characters of the fallback texts (U+2014 and
  U+2019) are written as code units.
\<close>

type_synonym jsstring = "16 word list"

definition js :: "string \<Rightarrow> jsstring" where
  "js s = map of_char s"

text \<open>
  The values that \<open>JSON.parse\<close>, \<open>request.json()\<close> and \<open>res.json()\<close> produce. A number
  is represented by its numeric value (both zeros are \<open>0\<close>); an object by its properties,
  \<open>map_of\<close> giving the value of a property. \<open>undefined\<close> is \<open>None\<close> of \<open>json option\<close>.
\<close>

datatype json =
    JNull
  | JBool bool
  | JNum rat
  | JStr jsstring
  | JArr "json list"
  | JObj "(jsstring \<times> json) list"

type_synonym jsvalue = "json option"

text \<open>ToBoolean: \<open>undefined\<close>, \<open>null\<close>, \<open>false\<close>, zero and the empty string are falsy.\<close>

fun truthy :: "jsvalue \<Rightarrow> bool" where
  "truthy None = False"
| "truthy (Some JNull) = False"
| "truthy (Some (JBool b)) = b"
| "truthy (Some (JNum n)) = (n \<noteq> 0)"
| "truthy (Some (JStr s)) = (s \<noteq> [])"
| "truthy (Some (JArr xs)) = True"
| "truthy (Some (JObj kvs)) = True"

text \<open>
  \<open>v?.k\<close> for the property names the source reads (\<open>message\<close>, \<open>chat\<close>, \<open>id\<close>,
  \<open>text\<close>, \<open>candidates\<close>, \<open>content\<close>, \<open>parts\<close>, \<open>reply_text\<close>): only an object can have
  one of them; on \<open>undefined\<close>, \<open>null\<close>, a primitive or an array the result is
  \<open>undefined\<close>.
\<close>

fun get :: "jsvalue \<Rightarrow> jsstring \<Rightarrow> jsvalue" where
  "get (Some (JObj kvs)) k = map_of kvs k"
| "get v k = None"

text \<open>
  \<open>v?.[0]\<close>: the first element of an array, the property \<open>"0"\<close> of an object, the first
  code unit of a string; \<open>undefined\<close> otherwise.
\<close>

fun at0 :: "jsvalue \<Rightarrow> jsvalue" where
  "at0 (Some (JArr xs)) = (case xs of [] \<Rightarrow> None | x # _ \<Rightarrow> Some x)"
| "at0 (Some (JObj kvs)) = map_of kvs (js ''0'')"
| "at0 (Some (JStr s)) = (case s of [] \<Rightarrow> None | c # _ \<Rightarrow> Some (JStr [c]))"
| "at0 v = None"

subsection \<open>String.prototype.trim\<close>

text \<open>The code units that \<open>trim\<close> strips: ECMAScript's WhiteSpace and LineTerminator.\<close>

definition isWhiteSpace :: "16 word \<Rightarrow> bool" where
  "isWhiteSpace c \<longleftrightarrow>
     c \<in> set [0x0009, 0x000A, 0x000B, 0x000C, 0x000D, 0x0020, 0x00A0, 0x1680,
               0x2000, 0x2001, 0x2002, 0x2003, 0x2004, 0x2005, 0x2006, 0x2007,
               0x2008, 0x2009, 0x200A, 0x2028, 0x2029, 0x202F, 0x205F, 0x3000, 0xFEFF]"

definition trim :: "jsstring \<Rightarrow> jsstring" where
  "trim s = rev (dropWhile isWhiteSpace (rev (dropWhile isWhiteSpace s)))"

subsection \<open>String.prototype.replaceAll with a string pattern\<close>

text \<open>
  GetSubstitution with no captures: in the replacement text \<open>$$\<close> stands for \<open>$\<close>,
  \<open>$`\<close> for the part of the subject before the match, \<open>$&\<close> for the match and
  \<open>$'\<close> for the part after it; every other code unit stands for itself.
\<close>

fun getSubstitution :: "jsstring \<Rightarrow> jsstring \<Rightarrow> jsstring \<Rightarrow> jsstring \<Rightarrow> jsstring" where
  "getSubstitution matched before after [] = []"
| "getSubstitution matched before after [c] = [c]"
| "getSubstitution matched before after (c # d # rest) =
     (if c = 0x24 \<and> d = 0x24 then 0x24 # getSubstitution matched before after rest
      else if c = 0x24 \<and> d = 0x60 then before @ getSubstitution matched before after rest
      else if c = 0x24 \<and> d = 0x26 then matched @ getSubstitution matched before after rest
      else if c = 0x24 \<and> d = 0x27 then after @ getSubstitution matched before after rest
      else c # getSubstitution matched before after (d # rest))"

text \<open>
  The matches are found from left to right, the search resuming after each match (one
  code unit further when the pattern is empty). \<open>seen\<close> is the part of the subject
  already passed, \<open>seen @ rest\<close> the whole subject.
\<close>

function replaceAll_from :: "jsstring \<Rightarrow> jsstring \<Rightarrow> jsstring \<Rightarrow> jsstring \<Rightarrow> jsstring" where
  "replaceAll_from search repl seen [] =
     (if search = [] then getSubstitution [] seen [] repl else [])"
| "replaceAll_from search repl seen (c # cs) =
     (if search = [] then
        getSubstitution [] seen (c # cs) repl @ c # replaceAll_from search repl (seen @ [c]) cs
      else if prefix search (c # cs) then
        getSubstitution search seen (drop (length search) (c # cs)) repl
          @ replaceAll_from search repl (seen @ search) (drop (length search) (c # cs))
      else c # replaceAll_from search repl (seen @ [c]) cs)"
  by pat_completeness auto
termination
  by (relation "measure (\<lambda>(search, repl, seen, rest). length rest)") auto

definition replaceAll :: "jsstring \<Rightarrow> jsstring \<Rightarrow> jsstring \<Rightarrow> jsstring" where
  "replaceAll s search repl = replaceAll_from search repl [] s"

text \<open>Number to string, for the status code in an error message.\<close>

fun decimal :: "nat \<Rightarrow> jsstring" where
  "decimal n =
     (if n < 10 then [of_nat (48 + n)]
      else decimal (n div 10) @ [of_nat (48 + n mod 10)])"

section \<open>The platform: environment, requests, fetch\<close>

type_synonym env = "jsstring \<Rightarrow> jsstring option"

text \<open>
  What the handler reads of a request: \<open>request.method\<close>, \<open>request.headers.get\<close> (the
  value of a header, \<open>None\<close> for the \<open>null\<close> of an absent one) and the result of
  \<open>request.json()\<close> (\<open>None\<close> when it rejects).
\<close>

record request =
  request_method :: jsstring
  headers_get :: "jsstring \<Rightarrow> jsstring option"
  json :: "json option"

text \<open>
  A response to \<open>fetch\<close>: \<open>res.status\<close>, the results of \<open>res.text()\<close> and \<open>res.json()\<close>
  (\<open>None\<close> when they reject); \<open>res.ok\<close> is a status in the range 200 to 299.
\<close>

record http_response =
  status :: nat
  text_body :: "jsstring option"
  json_body :: "json option"

definition res_ok :: "http_response \<Rightarrow> bool" where
  "res_ok res \<longleftrightarrow> 200 \<le> status res \<and> status res \<le> 299"

datatype fetch_result = Rejected | Resolved http_response

text \<open>
  The functions of the runtime that the source calls and does not define: \<open>fetch\<close>, from
  the URL and the value whose \<open>JSON.stringify\<close> is the body (every fetch of the source is
  a POST with content type \<open>application/json\<close>), and \<open>JSON.parse\<close>, from its argument
  (\<open>None\<close> when it throws).
\<close>

record platform =
  fetch :: "jsstring \<Rightarrow> json \<Rightarrow> fetch_result"
  JSON_parse :: "json \<Rightarrow> json option"

text \<open>
  Exceptions: an \<open>Error\<close> of the source with its message, or the exception of a runtime
  function.
\<close>

datatype runtime_op = RequestJson | FetchCall | ResponseText | ResponseJson | JSONParse

datatype error = Error jsstring | RuntimeError runtime_op

text \<open>The observable effects, in order: outbound calls and \<open>console.error\<close> lines.\<close>

datatype log_arg = LStr jsstring | LVal json | LErr error

datatype event = Fetch jsstring json | ConsoleError "log_arg list"

text \<open>\<open>new Response(body, { status })\<close>; a body is a text or \<open>JSON.stringify\<close> of a value.\<close>

datatype body = Text jsstring | JSON_stringify json

datatype response = Response body nat

section \<open>The source\<close>

definition TELEGRAM_API :: jsstring where
  "TELEGRAM_API = js ''https://api.telegram.org''"

definition GEMINI_API :: jsstring where
  "GEMINI_API = js ''https://generativelanguage.googleapis.com/v1beta''"

definition BOOKING_LINK_placeholder :: jsstring where
  "BOOKING_LINK_placeholder = js ''{{BOOKING_LINK}}''"

definition default_BOOKING_LINK :: jsstring where
  "default_BOOKING_LINK = js ''https://calendly.com/your-link''"

definition default_GEMINI_MODEL :: jsstring where
  "default_GEMINI_MODEL = js ''gemini-2.5-flash''"

text \<open>\<open>process.env.NAME || dflt\<close>\<close>

definition env_or :: "env \<Rightarrow> jsstring \<Rightarrow> jsstring \<Rightarrow> jsstring" where
  "env_or e name dflt = (case e name of None \<Rightarrow> dflt | Some v \<Rightarrow> if v = [] then dflt else v)"

subsection \<open>mustEnv (lines 4-8 and 106-110)\<close>

definition mustEnv_A :: "env \<Rightarrow> jsstring \<Rightarrow> error + jsstring" where
  "mustEnv_A e name =
     (case e name of
        None \<Rightarrow> Inl (Error (js ''Missing env var: '' @ name))
      | Some v \<Rightarrow> if v = [] then Inl (Error (js ''Missing env var: '' @ name)) else Inr v)"

definition mustEnv_B :: "env \<Rightarrow> jsstring \<Rightarrow> error + jsstring" where
  "mustEnv_B e name =
     (case e name of
        None \<Rightarrow> Inl (Error (js ''Missing required environment variable: '' @ name))
      | Some v \<Rightarrow>
          if v = [] then Inl (Error (js ''Missing required environment variable: '' @ name))
          else Inr v)"

subsection \<open>telegramSendMessage (lines 10-22 and 115-130, the same function)\<close>

definition telegram_url :: "jsstring \<Rightarrow> jsstring" where
  "telegram_url botToken = TELEGRAM_API @ js ''/bot'' @ botToken @ js ''/sendMessage''"

definition telegram_body :: "json \<Rightarrow> jsstring \<Rightarrow> json" where
  "telegram_body chatId text =
     JObj [(js ''chat_id'', chatId), (js ''text'', JStr text),
           (js ''disable_web_page_preview'', JBool True)]"

definition telegramSendMessage ::
  "platform \<Rightarrow> jsstring \<Rightarrow> json \<Rightarrow> jsstring \<Rightarrow> (error + unit) \<times> event list" where
  "telegramSendMessage P botToken chatId text =
     (let call = Fetch (telegram_url botToken) (telegram_body chatId text) in
      case fetch P (telegram_url botToken) (telegram_body chatId text) of
        Rejected \<Rightarrow> (Inl (RuntimeError FetchCall), [call])
      | Resolved res \<Rightarrow>
          if \<not> res_ok res then
            (case text_body res of
               None \<Rightarrow> (Inl (RuntimeError ResponseText), [call])
             | Some err \<Rightarrow>
                 (Inl (Error (js ''Telegram sendMessage failed: '' @ decimal (status res)
                                @ js '' '' @ err)), [call]))
          else (Inr (), [call]))"

subsection \<open>callGemini\<close>

definition gemini_url :: "jsstring \<Rightarrow> jsstring \<Rightarrow> jsstring" where
  "gemini_url model apiKey =
     GEMINI_API @ js ''/models/'' @ model @ js '':generateContent?key='' @ apiKey"

definition gemini_body :: "jsstring \<Rightarrow> json \<Rightarrow> json" where
  "gemini_body prompt userText =
     JObj [(js ''systemInstruction'', JObj [(js ''parts'', JArr [JObj [(js ''text'', JStr prompt)]])]),
           (js ''contents'',
              JArr [JObj [(js ''role'', JStr (js ''user'')),
                          (js ''parts'', JArr [JObj [(js ''text'', userText)]])]]),
           (js ''generationConfig'',
              JObj [(js ''responseMimeType'', JStr (js ''application/json'')),
                    (js ''temperature'', JNum (6 / 10))])]"

text \<open>\<open>data?.candidates?.[0]?.content?.parts?.[0]?.text\<close>\<close>

definition candidate_text :: "json \<Rightarrow> jsvalue" where
  "candidate_text data =
     get (at0 (get (get (at0 (get (Some data) (js ''candidates''))) (js ''content'')) (js ''parts'')))
         (js ''text'')"

text \<open>Lines 24-49.\<close>

definition callGemini_A ::
  "platform \<Rightarrow> jsstring \<Rightarrow> jsstring \<Rightarrow> jsstring \<Rightarrow> json \<Rightarrow> jsstring \<Rightarrow> (error + json) \<times> event list" where
  "callGemini_A P apiKey model systemPrompt userText bookingLink =
     (let url = gemini_url model apiKey;
          prompt = replaceAll systemPrompt BOOKING_LINK_placeholder bookingLink;
          call = Fetch url (gemini_body prompt userText) in
      case fetch P url (gemini_body prompt userText) of
        Rejected \<Rightarrow> (Inl (RuntimeError FetchCall), [call])
      | Resolved res \<Rightarrow>
          if \<not> res_ok res then
            (case text_body res of
               None \<Rightarrow> (Inl (RuntimeError ResponseText), [call])
             | Some err \<Rightarrow>
                 (Inl (Error (js ''Gemini failed: '' @ decimal (status res) @ js '' '' @ err)),
                  [call]))
          else
            (case json_body res of
               None \<Rightarrow> (Inl (RuntimeError ResponseJson), [call])
             | Some data \<Rightarrow>
                 (case candidate_text data of
                    None \<Rightarrow> (Inl (Error (js ''Gemini returned no text.'')), [call])
                  | Some text \<Rightarrow>
                      if \<not> truthy (Some text) then
                        (Inl (Error (js ''Gemini returned no text.'')), [call])
                      else
                        (case JSON_parse P text of
                           None \<Rightarrow> (Inl (RuntimeError JSONParse), [call])
                         | Some ai \<Rightarrow> (Inr ai, [call])))))"

text \<open>Lines 135-182.\<close>

definition callGemini_B ::
  "platform \<Rightarrow> env \<Rightarrow> json \<Rightarrow> jsstring \<Rightarrow> (error + json) \<times> event list" where
  "callGemini_B P e userText bookingLink =
     (case mustEnv_B e (js ''JIM_API_KEY'') of
        Inl err \<Rightarrow> (Inl err, [])
      | Inr JIM_API_KEY \<Rightarrow>
     (case mustEnv_B e (js ''AI_SYSTEM_PROMPT'') of
        Inl err \<Rightarrow> (Inl err, [])
      | Inr SYSTEM_PROMPT \<Rightarrow>
     (let GEMINI_MODEL = env_or e (js ''GEMINI_MODEL'') default_GEMINI_MODEL;
          prompt = replaceAll SYSTEM_PROMPT BOOKING_LINK_placeholder bookingLink;
          url = gemini_url GEMINI_MODEL JIM_API_KEY;
          call = Fetch url (gemini_body prompt userText) in
      case fetch P url (gemini_body prompt userText) of
        Rejected \<Rightarrow> (Inl (RuntimeError FetchCall), [call])
      | Resolved res \<Rightarrow>
          if \<not> res_ok res then
            (case text_body res of
               None \<Rightarrow> (Inl (RuntimeError ResponseText), [call])
             | Some err \<Rightarrow>
                 (Inl (Error (js ''Gemini API failed: '' @ decimal (status res) @ js '' '' @ err)),
                  [call]))
          else
            (case json_body res of
               None \<Rightarrow> (Inl (RuntimeError ResponseJson), [call])
             | Some data \<Rightarrow>
                 (case candidate_text data of
                    None \<Rightarrow> (Inl (Error (js ''Gemini returned empty response.'')), [call])
                  | Some raw \<Rightarrow>
                      if \<not> truthy (Some raw) then
                        (Inl (Error (js ''Gemini returned empty response.'')), [call])
                      else
                        (case JSON_parse P raw of
                           None \<Rightarrow>
                             (Inl (Error (js ''Gemini returned malformed JSON.'')),
                              [call, ConsoleError [LStr (js ''Invalid JSON from Gemini:''), LVal raw]])
                         | Some ai \<Rightarrow> (Inr ai, [call])))))))"

subsection \<open>handler\<close>

definition fallback_A :: jsstring where
  "fallback_A = js ''Got you '' @ [0x2014] @ js '' what'' @ [0x2019]
                  @ js ''s your website or IG link so I can take a look?''"

definition fallback_B :: jsstring where
  "fallback_B = js ''Quick question '' @ [0x2014] @ js '' what'' @ [0x2019]
                  @ js ''s your website or IG link so I can take a look?''"

text \<open>
  \<open>typeof ai?.reply_text === "string" && ai.reply_text.trim() ? ai.reply_text.trim() : fallback\<close>
\<close>

definition replyText :: "jsstring \<Rightarrow> json \<Rightarrow> jsstring" where
  "replyText fallback ai =
     (case get (Some ai) (js ''reply_text'') of
        Some (JStr s) \<Rightarrow> if trim s \<noteq> [] then trim s else fallback
      | _ \<Rightarrow> fallback)"

text \<open>
  The check of the secret token: \<open>True\<close> when the request is turned away. An empty
  \<open>TELEGRAM_WEBHOOK_SECRET\<close> is falsy and switches the check off.
\<close>

definition secret_rejects :: "env \<Rightarrow> request \<Rightarrow> bool" where
  "secret_rejects e req =
     (case e (js ''TELEGRAM_WEBHOOK_SECRET'') of
        None \<Rightarrow> False
      | Some expectedSecret \<Rightarrow>
          expectedSecret \<noteq> []
          \<and> headers_get req (js ''x-telegram-bot-api-secret-token'') \<noteq> Some expectedSecret)"

definition method_not_allowed :: response where
  "method_not_allowed = Response (Text (js ''Method Not Allowed'')) 405"

definition unauthorized :: response where
  "unauthorized = Response (Text (js ''Unauthorized'')) 401"

definition ok_ignored :: response where
  "ok_ignored =
     Response (JSON_stringify (JObj [(js ''ok'', JBool True), (js ''ignored'', JBool True)])) 200"

definition ok_true :: response where
  "ok_true = Response (JSON_stringify (JObj [(js ''ok'', JBool True)])) 200"

text \<open>The body of the \<open>try\<close> block, lines 53-93: the response or the exception thrown.\<close>

definition try_A :: "platform \<Rightarrow> env \<Rightarrow> request \<Rightarrow> (error + response) \<times> event list" where
  "try_A P e req =
     (if request_method req \<noteq> js ''POST'' then (Inr method_not_allowed, [])
      else
     (case mustEnv_A e (js ''TELEGRAM_BOT_TOKEN'') of
        Inl err \<Rightarrow> (Inl err, [])
      | Inr BOT_TOKEN \<Rightarrow>
     (case mustEnv_A e (js ''GEMINI_API_KEY'') of
        Inl err \<Rightarrow> (Inl err, [])
      | Inr GEMINI_KEY \<Rightarrow>
     (case mustEnv_A e (js ''AI_SYSTEM_PROMPT'') of
        Inl err \<Rightarrow> (Inl err, [])
      | Inr SYSTEM_PROMPT \<Rightarrow>
     (let BOOKING_LINK = env_or e (js ''BOOKING_LINK'') default_BOOKING_LINK;
          GEMINI_MODEL = env_or e (js ''GEMINI_MODEL'') default_GEMINI_MODEL in
      if secret_rejects e req then (Inr unauthorized, [])
      else
     (case json req of
        None \<Rightarrow> (Inl (RuntimeError RequestJson), [])
      | Some update \<Rightarrow>
     (let msg = get (Some update) (js ''message'');
          chatId = get (get msg (js ''chat'')) (js ''id'');
          userText = get msg (js ''text'') in
      if \<not> truthy chatId \<or> \<not> truthy userText then (Inr ok_ignored, [])
      else
     (case callGemini_A P GEMINI_KEY GEMINI_MODEL SYSTEM_PROMPT (the userText) BOOKING_LINK of
        (Inl err, t) \<Rightarrow> (Inl err, t)
      | (Inr ai, t) \<Rightarrow>
     (case telegramSendMessage P BOT_TOKEN (the chatId) (replyText fallback_A ai) of
        (Inl err, t') \<Rightarrow> (Inl err, t @ t')
      | (Inr u, t') \<Rightarrow> (Inr ok_true, t @ t'))))))))))"

text \<open>Lines 51-99: the \<open>catch\<close> logs the exception and answers 200.\<close>

definition handler_A :: "platform \<Rightarrow> env \<Rightarrow> request \<Rightarrow> response \<times> event list" where
  "handler_A P e req =
     (case try_A P e req of
        (Inr r, t) \<Rightarrow> (r, t)
      | (Inl err, t) \<Rightarrow> (ok_true, t @ [ConsoleError [LErr err]]))"

text \<open>The body of the \<open>try\<close> block, lines 189-230.\<close>

definition try_B :: "platform \<Rightarrow> env \<Rightarrow> request \<Rightarrow> (error + response) \<times> event list" where
  "try_B P e req =
     (if request_method req \<noteq> js ''POST'' then (Inr method_not_allowed, [])
      else
     (case mustEnv_B e (js ''TELEGRAM_BOT_TOKEN'') of
        Inl err \<Rightarrow> (Inl err, [])
      | Inr BOT_TOKEN \<Rightarrow>
     (let BOOKING_LINK = env_or e (js ''BOOKING_LINK'') default_BOOKING_LINK in
      if secret_rejects e req then (Inr unauthorized, [])
      else
     (case json req of
        None \<Rightarrow> (Inl (RuntimeError RequestJson), [])
      | Some update \<Rightarrow>
     (let message = get (Some update) (js ''message'');
          chatId = get (get message (js ''chat'')) (js ''id'');
          userText = get message (js ''text'') in
      if \<not> truthy chatId \<or> \<not> truthy userText then (Inr ok_ignored, [])
      else
     (case callGemini_B P e (the userText) BOOKING_LINK of
        (Inl err, t) \<Rightarrow> (Inl err, t)
      | (Inr ai, t) \<Rightarrow>
     (case telegramSendMessage P BOT_TOKEN (the chatId) (replyText fallback_B ai) of
        (Inl err, t') \<Rightarrow> (Inl err, t @ t')
      | (Inr u, t') \<Rightarrow> (Inr ok_true, t @ t'))))))))"

text \<open>Lines 187-239.\<close>

definition handler_B :: "platform \<Rightarrow> env \<Rightarrow> request \<Rightarrow> response \<times> event list" where
  "handler_B P e req =
     (case try_B P e req of
        (Inr r, t) \<Rightarrow> (r, t)
      | (Inl err, t) \<Rightarrow> (ok_true, t @ [ConsoleError [LStr (js ''Webhook Error:''), LErr err]]))"


section \<open>Observations on a run\<close>

text \<open>A variable of the environment that \<open>mustEnv\<close> accepts: present and not empty.\<close>

definition is_set :: "env \<Rightarrow> jsstring \<Rightarrow> bool" where
  "is_set e name = (case e name of None \<Rightarrow> False | Some v \<Rightarrow> v \<noteq> [])"

fun is_fetch :: "event \<Rightarrow> bool" where
  "is_fetch (Fetch url b) = True"
| "is_fetch (ConsoleError args) = False"

text \<open>The outbound calls of a run, in order.\<close>

definition outbound :: "event list \<Rightarrow> event list" where
  "outbound t = filter is_fetch t"

text \<open>A call to the messaging platform: its URL starts with \<open>TELEGRAM_API\<close>.\<close>

fun is_telegram_call :: "event \<Rightarrow> bool" where
  "is_telegram_call (Fetch url b) = prefix TELEGRAM_API url"
| "is_telegram_call (ConsoleError args) = False"

text \<open>\<open>chatId\<close> and \<open>userText\<close> of lines 70-72 and 209-211, from the parsed payload.\<close>

definition chatId_of :: "json \<Rightarrow> jsvalue" where
  "chatId_of update = get (get (get (Some update) (js ''message'')) (js ''chat'')) (js ''id'')"

definition userText_of :: "json \<Rightarrow> jsvalue" where
  "userText_of update = get (get (Some update) (js ''message'')) (js ''text'')"

text \<open>
  The completion step and the send step as the handlers run them once the mandatory
  variables are read: the calls of lines 77-83 and 90, and of lines 219 and 226.
\<close>

definition completion_A :: "platform \<Rightarrow> env \<Rightarrow> json \<Rightarrow> (error + json) \<times> event list" where
  "completion_A P e update =
     callGemini_A P (the (e (js ''GEMINI_API_KEY'')))
       (env_or e (js ''GEMINI_MODEL'') default_GEMINI_MODEL)
       (the (e (js ''AI_SYSTEM_PROMPT''))) (the (userText_of update))
       (env_or e (js ''BOOKING_LINK'') default_BOOKING_LINK)"

definition completion_B :: "platform \<Rightarrow> env \<Rightarrow> json \<Rightarrow> (error + json) \<times> event list" where
  "completion_B P e update =
     callGemini_B P e (the (userText_of update))
       (env_or e (js ''BOOKING_LINK'') default_BOOKING_LINK)"

definition send_A :: "platform \<Rightarrow> env \<Rightarrow> json \<Rightarrow> json \<Rightarrow> (error + unit) \<times> event list" where
  "send_A P e update ai =
     telegramSendMessage P (the (e (js ''TELEGRAM_BOT_TOKEN''))) (the (chatId_of update))
       (replyText fallback_A ai)"

definition send_B :: "platform \<Rightarrow> env \<Rightarrow> json \<Rightarrow> json \<Rightarrow> (error + unit) \<times> event list" where
  "send_B P e update ai =
     telegramSendMessage P (the (e (js ''TELEGRAM_BOT_TOKEN''))) (the (chatId_of update))
       (replyText fallback_B ai)"

section \<open>The specification's words\<close>



section \<open>Concrete runs\<close>

text \<open>A platform without network: every \<open>fetch\<close> rejects.\<close>

definition offline :: platform where
  "offline = \<lparr>fetch = (\<lambda>url b. Rejected), JSON_parse = (\<lambda>v. None)\<rparr>"

text \<open>
  A platform whose completion service answers 200 with \<open>raw\<close> as the text of its first
  candidate, \<open>JSON.parse\<close> of \<open>raw\<close> being \<open>parsed\<close>; the messaging platform answers 200.
\<close>

definition gemini_data :: "jsstring \<Rightarrow> json" where
  "gemini_data raw =
     JObj [(js ''candidates'',
            JArr [JObj [(js ''content'', JObj [(js ''parts'', JArr [JObj [(js ''text'', JStr raw)]])])]])]"

definition answering :: "jsstring \<Rightarrow> json option \<Rightarrow> platform" where
  "answering raw parsed =
     \<lparr>fetch = (\<lambda>url b. Resolved \<lparr>status = 200, text_body = Some [], json_body = Some (gemini_data raw)\<rparr>),
      JSON_parse = (\<lambda>v. if v = JStr raw then parsed else None)\<rparr>"

definition env_of :: "(string \<times> string) list \<Rightarrow> env" where
  "env_of kvs = map_of (map (\<lambda>(k, v). (js k, js v)) kvs)"

definition env_full :: env where
  "env_full = env_of [(''TELEGRAM_BOT_TOKEN'', ''123:abc''), (''GEMINI_API_KEY'', ''k1''),
                      (''JIM_API_KEY'', ''k1''), (''AI_SYSTEM_PROMPT'', ''Offer {{BOOKING_LINK}}'')]"

definition env_secret :: env where
  "env_secret = env_of [(''TELEGRAM_BOT_TOKEN'', ''123:abc''), (''GEMINI_API_KEY'', ''k1''),
                        (''JIM_API_KEY'', ''k1''), (''AI_SYSTEM_PROMPT'', ''Offer {{BOOKING_LINK}}''),
                        (''TELEGRAM_WEBHOOK_SECRET'', ''s3cret'')]"

definition env_secret_only :: env where
  "env_secret_only = env_of [(''TELEGRAM_WEBHOOK_SECRET'', ''s3cret'')]"

definition env_no_JIM :: env where
  "env_no_JIM = env_of [(''TELEGRAM_BOT_TOKEN'', ''123:abc''), (''GEMINI_API_KEY'', ''k1''),
                        (''AI_SYSTEM_PROMPT'', ''Offer {{BOOKING_LINK}}'')]"

definition env_no_prompt :: env where
  "env_no_prompt = env_of [(''TELEGRAM_BOT_TOKEN'', ''123:abc''), (''GEMINI_API_KEY'', ''k1''),
                           (''JIM_API_KEY'', ''k1''), (''TELEGRAM_WEBHOOK_SECRET'', ''s3cret'')]"

definition GET_request :: request where
  "GET_request = \<lparr>request_method = js ''GET'', headers_get = (\<lambda>h. None), json = None\<rparr>"

definition POST_request :: "json option \<Rightarrow> request" where
  "POST_request b = \<lparr>request_method = js ''POST'', headers_get = (\<lambda>h. None), json = b\<rparr>"

definition update_of :: "json \<Rightarrow> json \<Rightarrow> json" where
  "update_of chat_id text =
     JObj [(js ''message'', JObj [(js ''chat'', JObj [(js ''id'', chat_id)]), (js ''text'', text)])]"

definition update_photo :: json where
  "update_photo =
     JObj [(js ''message'', JObj [(js ''chat'', JObj [(js ''id'', JNum 42)]), (js ''photo'', JArr [])])]"

definition update_hi :: json where
  "update_hi = update_of (JNum 42) (JStr (js ''hi''))"

text \<open>
  An answer of the completion service with surrounding white space, the one without a
  \<open>reply_text\<close>, and a booking link that uses the replacement pattern \<open>$&\<close>.
\<close>

definition hello_raw :: jsstring where
  \<open>hello_raw = js ''{"reply_text": "  Hello there  "}''\<close>

definition hello_ai :: json where
  "hello_ai = JObj [(js ''reply_text'', JStr (js ''  Hello there  ''))]"


section \<open>Facts about the parts\<close>

lemma mustEnv_A_set: "is_set e name \<Longrightarrow> mustEnv_A e name = Inr (the (e name))"
  by (auto simp: is_set_def mustEnv_A_def split: option.splits)

lemma mustEnv_B_set: "is_set e name \<Longrightarrow> mustEnv_B e name = Inr (the (e name))"
  by (auto simp: is_set_def mustEnv_B_def split: option.splits)

lemma mustEnv_A_unset:
  "\<not> is_set e name \<Longrightarrow> mustEnv_A e name = Inl (Error (js ''Missing env var: '' @ name))"
  by (auto simp: is_set_def mustEnv_A_def split: option.splits)

lemma mustEnv_B_unset:
  "\<not> is_set e name \<Longrightarrow>
   mustEnv_B e name = Inl (Error (js ''Missing required environment variable: '' @ name))"
  by (auto simp: is_set_def mustEnv_B_def split: option.splits)

lemma try_A_parsed:
  assumes "request_method req = js ''POST''"
    and "is_set e (js ''TELEGRAM_BOT_TOKEN'')" and "is_set e (js ''GEMINI_API_KEY'')"
    and "is_set e (js ''AI_SYSTEM_PROMPT'')"
    and "\<not> secret_rejects e req" and "json req = Some update"
  shows "try_A P e req =
     (if \<not> truthy (chatId_of update) \<or> \<not> truthy (userText_of update) then (Inr ok_ignored, [])
      else (case completion_A P e update of
              (Inl err, t) \<Rightarrow> (Inl err, t)
            | (Inr ai, t) \<Rightarrow>
                (case send_A P e update ai of
                   (Inl err, t') \<Rightarrow> (Inl err, t @ t')
                 | (Inr u, t') \<Rightarrow> (Inr ok_true, t @ t'))))"
  unfolding try_A_def chatId_of_def userText_of_def completion_A_def send_A_def
  using assms by (simp add: mustEnv_A_set Let_def)

lemma try_B_parsed:
  assumes "request_method req = js ''POST''"
    and "is_set e (js ''TELEGRAM_BOT_TOKEN'')"
    and "\<not> secret_rejects e req" and "json req = Some update"
  shows "try_B P e req =
     (if \<not> truthy (chatId_of update) \<or> \<not> truthy (userText_of update) then (Inr ok_ignored, [])
      else (case completion_B P e update of
              (Inl err, t) \<Rightarrow> (Inl err, t)
            | (Inr ai, t) \<Rightarrow>
                (case send_B P e update ai of
                   (Inl err, t') \<Rightarrow> (Inl err, t @ t')
                 | (Inr u, t') \<Rightarrow> (Inr ok_true, t @ t'))))"
  unfolding try_B_def chatId_of_def userText_of_def completion_B_def send_B_def
  using assms by (simp add: mustEnv_B_set Let_def)

lemma telegramSendMessage_trace:
  "snd (telegramSendMessage P tok c t) = [Fetch (telegram_url tok) (telegram_body c t)]"
  by (simp add: telegramSendMessage_def Let_def split: fetch_result.splits option.splits)

lemma callGemini_A_trace:
  "snd (callGemini_A P k m s u b) =
     [Fetch (gemini_url m k) (gemini_body (replaceAll s BOOKING_LINK_placeholder b) u)]"
  by (simp add: callGemini_A_def Let_def split: fetch_result.splits option.splits)


lemma gemini_url_not_telegram: "\<not> prefix TELEGRAM_API (gemini_url m k)"
  by (simp add: TELEGRAM_API_def gemini_url_def GEMINI_API_def js_def)



lemma try_A_unset:
  assumes "request_method req = js ''POST''"
    and "\<not> (is_set e (js ''TELEGRAM_BOT_TOKEN'') \<and> is_set e (js ''GEMINI_API_KEY'')
            \<and> is_set e (js ''AI_SYSTEM_PROMPT''))"
  shows "\<exists>name. try_A P e req = (Inl (Error (js ''Missing env var: '' @ name)), [])"
proof (cases "is_set e (js ''TELEGRAM_BOT_TOKEN'')")
  case False
  with assms(1) show ?thesis by (simp add: try_A_def mustEnv_A_unset)
next
  case bot: True
  show ?thesis
  proof (cases "is_set e (js ''GEMINI_API_KEY'')")
    case False
    with assms(1) bot show ?thesis by (simp add: try_A_def mustEnv_A_unset mustEnv_A_set)
  next
    case True
    with assms bot show ?thesis by (simp add: try_A_def mustEnv_A_unset mustEnv_A_set)
  qed
qed

lemma callGemini_B_unset:
  assumes "\<not> (is_set e (js ''JIM_API_KEY'') \<and> is_set e (js ''AI_SYSTEM_PROMPT''))"
  shows "\<exists>name. callGemini_B P e u b =
           (Inl (Error (js ''Missing required environment variable: '' @ name)), [])"
proof (cases "is_set e (js ''JIM_API_KEY'')")
  case False
  then show ?thesis by (simp add: callGemini_B_def mustEnv_B_unset)
next
  case True
  with assms show ?thesis by (simp add: callGemini_B_def mustEnv_B_unset mustEnv_B_set)
qed

lemma handler_A_response_POST:
  assumes "request_method req = js ''POST''" and "\<not> secret_rejects e req"
    and "json req = Some update"
    and "truthy (chatId_of update)" and "truthy (userText_of update)"
  shows "fst (handler_A P e req) = ok_true"
proof (cases "is_set e (js ''TELEGRAM_BOT_TOKEN'') \<and> is_set e (js ''GEMINI_API_KEY'')
            \<and> is_set e (js ''AI_SYSTEM_PROMPT'')")
  case True
  with assms show ?thesis
    by (simp add: handler_A_def try_A_parsed split: prod.splits sum.splits)
next
  case False
  from try_A_unset [OF assms(1) False, of P] show ?thesis
    by (auto simp: handler_A_def)
qed

lemma handler_B_response_POST:
  assumes "request_method req = js ''POST''" and "\<not> secret_rejects e req"
    and "json req = Some update"
    and "truthy (chatId_of update)" and "truthy (userText_of update)"
  shows "fst (handler_B P e req) = ok_true"
proof (cases "is_set e (js ''TELEGRAM_BOT_TOKEN'')")
  case True
  with assms show ?thesis
    by (simp add: handler_B_def try_B_parsed split: prod.splits sum.splits)
next
  case False
  with assms(1) show ?thesis
    by (simp add: handler_B_def try_B_def mustEnv_B_unset)
qed

lemma handler_A_completion_failed:
  assumes "request_method req = js ''POST''" and "\<not> secret_rejects e req"
    and "json req = Some update"
    and "truthy (chatId_of update)" and "truthy (userText_of update)"
    and "is_set e (js ''TELEGRAM_BOT_TOKEN'')" and "is_set e (js ''GEMINI_API_KEY'')"
    and "is_set e (js ''AI_SYSTEM_PROMPT'')"
    and "fst (completion_A P e update) = Inl err"
  shows "filter is_telegram_call (snd (handler_A P e req)) = []"
proof -
  obtain t where c: "completion_A P e update = (Inl err, t)"
    using assms(9) by (cases "completion_A P e update") simp
  have "snd (completion_A P e update) =
          [Fetch (gemini_url (env_or e (js ''GEMINI_MODEL'') default_GEMINI_MODEL)
                    (the (e (js ''GEMINI_API_KEY''))))
                 (gemini_body (replaceAll (the (e (js ''AI_SYSTEM_PROMPT'')))
                                 BOOKING_LINK_placeholder
                                 (env_or e (js ''BOOKING_LINK'') default_BOOKING_LINK))
                    (the (userText_of update)))]"
    unfolding completion_A_def by (rule callGemini_A_trace)
  with c have "filter is_telegram_call t = []"
    by (simp add: gemini_url_not_telegram)
  with assms c show ?thesis
    by (simp add: handler_A_def try_A_parsed)
qed


subsection \<open>Substitution and trimming\<close>











subsection \<open>The completion step\<close>

lemma callGemini_B_no_telegram:
  "filter is_telegram_call (snd (callGemini_B P e u b)) = []"
proof (cases "is_set e (js ''JIM_API_KEY'') \<and> is_set e (js ''AI_SYSTEM_PROMPT'')")
  case True
  then show ?thesis
    by (simp add: callGemini_B_def Let_def mustEnv_B_set gemini_url_not_telegram
        split: fetch_result.splits option.splits)
next
  case False
  from callGemini_B_unset [OF False, of P u b] show ?thesis by auto
qed

lemma handler_B_completion_failed:
  assumes "request_method req = js ''POST''" and "\<not> secret_rejects e req"
    and "json req = Some update"
    and "truthy (chatId_of update)" and "truthy (userText_of update)"
    and "is_set e (js ''TELEGRAM_BOT_TOKEN'')"
    and "fst (completion_B P e update) = Inl err"
  shows "filter is_telegram_call (snd (handler_B P e req)) = []"
proof -
  obtain t where c: "completion_B P e update = (Inl err, t)"
    using assms(7) by (cases "completion_B P e update") simp
  have "filter is_telegram_call (snd (completion_B P e update)) = []"
    unfolding completion_B_def by (rule callGemini_B_no_telegram)
  with c have "filter is_telegram_call t = []" by simp
  with assms c show ?thesis
    by (simp add: handler_B_def try_B_parsed)
qed

text \<open>
  With the same key and the template set, the two completion clients make the same call
  and agree on the outcome, the error value apart.
\<close>

lemma callGemini_agree:
  assumes "is_set e (js ''JIM_API_KEY'')" and "is_set e (js ''AI_SYSTEM_PROMPT'')"
  shows "(isl (fst (callGemini_A P (the (e (js ''JIM_API_KEY'')))
                     (env_or e (js ''GEMINI_MODEL'') default_GEMINI_MODEL)
                     (the (e (js ''AI_SYSTEM_PROMPT''))) u b))
          \<longleftrightarrow> isl (fst (callGemini_B P e u b)))
       \<and> (\<forall>ai. fst (callGemini_A P (the (e (js ''JIM_API_KEY'')))
                     (env_or e (js ''GEMINI_MODEL'') default_GEMINI_MODEL)
                     (the (e (js ''AI_SYSTEM_PROMPT''))) u b) = Inr ai
              \<longleftrightarrow> fst (callGemini_B P e u b) = Inr ai)
       \<and> outbound (snd (callGemini_A P (the (e (js ''JIM_API_KEY'')))
                     (env_or e (js ''GEMINI_MODEL'') default_GEMINI_MODEL)
                     (the (e (js ''AI_SYSTEM_PROMPT''))) u b))
           = outbound (snd (callGemini_B P e u b))"
  using assms
  by (simp add: callGemini_A_def callGemini_B_def Let_def mustEnv_B_set outbound_def
      split: fetch_result.splits option.splits)

lemma callGemini_B_malformed_JSON:
  assumes "is_set e (js ''JIM_API_KEY'')" and "is_set e (js ''AI_SYSTEM_PROMPT'')"
    and "fetch P (gemini_url (env_or e (js ''GEMINI_MODEL'') default_GEMINI_MODEL)
                    (the (e (js ''JIM_API_KEY''))))
                 (gemini_body (replaceAll (the (e (js ''AI_SYSTEM_PROMPT'')))
                                 BOOKING_LINK_placeholder b) u) = Resolved res"
    and "res_ok res" and "json_body res = Some data"
    and "candidate_text data = Some raw" and "truthy (Some raw)"
    and "JSON_parse P raw = None"
  shows "callGemini_B P e u b =
           (Inl (Error (js ''Gemini returned malformed JSON.'')),
            [Fetch (gemini_url (env_or e (js ''GEMINI_MODEL'') default_GEMINI_MODEL)
                      (the (e (js ''JIM_API_KEY''))))
                   (gemini_body (replaceAll (the (e (js ''AI_SYSTEM_PROMPT'')))
                                   BOOKING_LINK_placeholder b) u),
             ConsoleError [LStr (js ''Invalid JSON from Gemini:''), LVal raw]])"
  using assms by (simp add: callGemini_B_def Let_def mustEnv_B_set)

subsection \<open>The reply text\<close>



lemma replyText_fallbacks:
  "replyText fallback_A ai = replyText fallback_B ai
   \<or> (replyText fallback_A ai = fallback_A \<and> replyText fallback_B ai = fallback_B)"
  by (auto simp: replyText_def split: option.splits json.splits)

subsection \<open>The concrete environments\<close>

lemma env_full_values:
  "env_full (js ''TELEGRAM_BOT_TOKEN'') = Some (js ''123:abc'')"
  "env_full (js ''GEMINI_API_KEY'') = Some (js ''k1'')"
  "env_full (js ''JIM_API_KEY'') = Some (js ''k1'')"
  "env_full (js ''AI_SYSTEM_PROMPT'') = Some (js ''Offer {{BOOKING_LINK}}'')"
  "env_full (js ''BOOKING_LINK'') = None"
  "env_full (js ''GEMINI_MODEL'') = None"
  "env_full (js ''TELEGRAM_WEBHOOK_SECRET'') = None"
  by (simp_all add: env_full_def env_of_def js_def)

lemma env_secret_values:
  "env_secret (js ''TELEGRAM_BOT_TOKEN'') = Some (js ''123:abc'')"
  "env_secret (js ''GEMINI_API_KEY'') = Some (js ''k1'')"
  "env_secret (js ''JIM_API_KEY'') = Some (js ''k1'')"
  "env_secret (js ''AI_SYSTEM_PROMPT'') = Some (js ''Offer {{BOOKING_LINK}}'')"
  "env_secret (js ''BOOKING_LINK'') = None"
  "env_secret (js ''GEMINI_MODEL'') = None"
  "env_secret (js ''TELEGRAM_WEBHOOK_SECRET'') = Some (js ''s3cret'')"
  by (simp_all add: env_secret_def env_of_def js_def)

lemma env_secret_only_values:
  "env_secret_only (js ''TELEGRAM_BOT_TOKEN'') = None"
  "env_secret_only (js ''TELEGRAM_WEBHOOK_SECRET'') = Some (js ''s3cret'')"
  by (simp_all add: env_secret_only_def env_of_def js_def)

lemma env_no_JIM_values:
  "env_no_JIM (js ''TELEGRAM_BOT_TOKEN'') = Some (js ''123:abc'')"
  "env_no_JIM (js ''GEMINI_API_KEY'') = Some (js ''k1'')"
  "env_no_JIM (js ''JIM_API_KEY'') = None"
  "env_no_JIM (js ''AI_SYSTEM_PROMPT'') = Some (js ''Offer {{BOOKING_LINK}}'')"
  "env_no_JIM (js ''BOOKING_LINK'') = None"
  "env_no_JIM (js ''GEMINI_MODEL'') = None"
  "env_no_JIM (js ''TELEGRAM_WEBHOOK_SECRET'') = None"
  by (simp_all add: env_no_JIM_def env_of_def js_def)

lemma env_no_prompt_values:
  "env_no_prompt (js ''TELEGRAM_BOT_TOKEN'') = Some (js ''123:abc'')"
  "env_no_prompt (js ''GEMINI_API_KEY'') = Some (js ''k1'')"
  "env_no_prompt (js ''JIM_API_KEY'') = Some (js ''k1'')"
  "env_no_prompt (js ''AI_SYSTEM_PROMPT'') = None"
  "env_no_prompt (js ''BOOKING_LINK'') = None"
  "env_no_prompt (js ''GEMINI_MODEL'') = None"
  "env_no_prompt (js ''TELEGRAM_WEBHOOK_SECRET'') = Some (js ''s3cret'')"
  by (simp_all add: env_no_prompt_def env_of_def js_def)

lemma js_nonempty: "js (c # cs) \<noteq> []"
  by (simp add: js_def)

lemma update_of_fields:
  "chatId_of (update_of c t) = Some c" "userText_of (update_of c t) = Some t"
  by (simp_all add: chatId_of_def userText_of_def update_of_def js_def)

lemma update_photo_fields:
  "chatId_of update_photo = Some (JNum 42)" "userText_of update_photo = None"
  by (simp_all add: chatId_of_def userText_of_def update_photo_def js_def)

lemma candidate_text_gemini_data: "candidate_text (gemini_data raw) = Some (JStr raw)"
  by (simp add: candidate_text_def gemini_data_def js_def)


subsection \<open>What the messaging platform receives\<close>

lemma handler_A_sent:
  assumes "request_method req = js ''POST''" and "\<not> secret_rejects e req"
    and "json req = Some update"
    and "truthy (chatId_of update)" and "truthy (userText_of update)"
    and "is_set e (js ''TELEGRAM_BOT_TOKEN'')" and "is_set e (js ''GEMINI_API_KEY'')"
    and "is_set e (js ''AI_SYSTEM_PROMPT'')"
    and "fst (completion_A P e update) = Inr ai"
  shows "outbound (snd (handler_A P e req)) =
           outbound (snd (completion_A P e update))
           @ [Fetch (telegram_url (the (e (js ''TELEGRAM_BOT_TOKEN''))))
                    (telegram_body (the (chatId_of update)) (replyText fallback_A ai))]"
proof -
  obtain t where c: "completion_A P e update = (Inr ai, t)"
    using assms(9) by (cases "completion_A P e update") simp
  obtain r t' where s: "send_A P e update ai = (r, t')"
    by (cases "send_A P e update ai")
  have "snd (send_A P e update ai) =
          [Fetch (telegram_url (the (e (js ''TELEGRAM_BOT_TOKEN''))))
                 (telegram_body (the (chatId_of update)) (replyText fallback_A ai))]"
    unfolding send_A_def by (rule telegramSendMessage_trace)
  with s have t': "t' = [Fetch (telegram_url (the (e (js ''TELEGRAM_BOT_TOKEN''))))
                 (telegram_body (the (chatId_of update)) (replyText fallback_A ai))]"
    by simp
  from assms c s t' show ?thesis
    by (cases r) (simp_all add: handler_A_def try_A_parsed outbound_def)
qed

lemma handler_B_sent:
  assumes "request_method req = js ''POST''" and "\<not> secret_rejects e req"
    and "json req = Some update"
    and "truthy (chatId_of update)" and "truthy (userText_of update)"
    and "is_set e (js ''TELEGRAM_BOT_TOKEN'')"
    and "fst (completion_B P e update) = Inr ai"
  shows "outbound (snd (handler_B P e req)) =
           outbound (snd (completion_B P e update))
           @ [Fetch (telegram_url (the (e (js ''TELEGRAM_BOT_TOKEN''))))
                    (telegram_body (the (chatId_of update)) (replyText fallback_B ai))]"
proof -
  obtain t where c: "completion_B P e update = (Inr ai, t)"
    using assms(7) by (cases "completion_B P e update") simp
  obtain r t' where s: "send_B P e update ai = (r, t')"
    by (cases "send_B P e update ai")
  have "snd (send_B P e update ai) =
          [Fetch (telegram_url (the (e (js ''TELEGRAM_BOT_TOKEN''))))
                 (telegram_body (the (chatId_of update)) (replyText fallback_B ai))]"
    unfolding send_B_def by (rule telegramSendMessage_trace)
  with s have t': "t' = [Fetch (telegram_url (the (e (js ''TELEGRAM_BOT_TOKEN''))))
                 (telegram_body (the (chatId_of update)) (replyText fallback_B ai))]"
    by simp
  from assms c s t' show ?thesis
    by (cases r) (simp_all add: handler_B_def try_B_parsed outbound_def)
qed

lemma handler_A_failed_outbound:
  assumes "request_method req = js ''POST''" and "\<not> secret_rejects e req"
    and "json req = Some update"
    and "truthy (chatId_of update)" and "truthy (userText_of update)"
    and "is_set e (js ''TELEGRAM_BOT_TOKEN'')" and "is_set e (js ''GEMINI_API_KEY'')"
    and "is_set e (js ''AI_SYSTEM_PROMPT'')"
    and "isl (fst (completion_A P e update))"
  shows "outbound (snd (handler_A P e req)) = outbound (snd (completion_A P e update))"
proof -
  obtain err t where c: "completion_A P e update = (Inl err, t)"
    using assms(9) by (cases "completion_A P e update") (auto simp: isl_def)
  with assms show ?thesis
    by (simp add: handler_A_def try_A_parsed outbound_def)
qed

lemma handler_B_failed_outbound:
  assumes "request_method req = js ''POST''" and "\<not> secret_rejects e req"
    and "json req = Some update"
    and "truthy (chatId_of update)" and "truthy (userText_of update)"
    and "is_set e (js ''TELEGRAM_BOT_TOKEN'')"
    and "isl (fst (completion_B P e update))"
  shows "outbound (snd (handler_B P e req)) = outbound (snd (completion_B P e update))"
proof -
  obtain err t where c: "completion_B P e update = (Inl err, t)"
    using assms(7) by (cases "completion_B P e update") (auto simp: isl_def)
  with assms show ?thesis
    by (simp add: handler_B_def try_B_parsed outbound_def)
qed




subsection \<open>The concrete answers\<close>

lemma answering_completion_A:
  assumes "raw \<noteq> []"
    and "e (js ''GEMINI_API_KEY'') = Some (js ''k1'')"
    and "e (js ''AI_SYSTEM_PROMPT'') = Some (js ''Offer {{BOOKING_LINK}}'')"
    and "e (js ''GEMINI_MODEL'') = None" and "e (js ''BOOKING_LINK'') = None"
  shows "completion_A (answering raw parsed) e update_hi =
     (case parsed of None \<Rightarrow> Inl (RuntimeError JSONParse) | Some ai \<Rightarrow> Inr ai,
      [Fetch (gemini_url default_GEMINI_MODEL (js ''k1''))
             (gemini_body (replaceAll (js ''Offer {{BOOKING_LINK}}'') BOOKING_LINK_placeholder
                             default_BOOKING_LINK) (JStr (js ''hi'')))])"
  using assms
  by (cases parsed)
     (simp_all add: completion_A_def callGemini_A_def answering_def env_or_def
        update_hi_def update_of_fields res_ok_def candidate_text_gemini_data)

lemma answering_completion_B:
  assumes "raw \<noteq> []"
    and "e (js ''JIM_API_KEY'') = Some (js ''k1'')"
    and "e (js ''AI_SYSTEM_PROMPT'') = Some (js ''Offer {{BOOKING_LINK}}'')"
    and "e (js ''GEMINI_MODEL'') = None" and "e (js ''BOOKING_LINK'') = None"
  shows "completion_B (answering raw parsed) e update_hi =
     (case parsed of
        None \<Rightarrow>
          (Inl (Error (js ''Gemini returned malformed JSON.'')),
           [Fetch (gemini_url default_GEMINI_MODEL (js ''k1''))
                  (gemini_body (replaceAll (js ''Offer {{BOOKING_LINK}}'') BOOKING_LINK_placeholder
                                  default_BOOKING_LINK) (JStr (js ''hi''))),
            ConsoleError [LStr (js ''Invalid JSON from Gemini:''), LVal (JStr raw)]])
      | Some ai \<Rightarrow>
          (Inr ai,
           [Fetch (gemini_url default_GEMINI_MODEL (js ''k1''))
                  (gemini_body (replaceAll (js ''Offer {{BOOKING_LINK}}'') BOOKING_LINK_placeholder
                                  default_BOOKING_LINK) (JStr (js ''hi'')))]))"
  using assms
  by (cases parsed)
     (simp_all add: completion_B_def callGemini_B_def answering_def env_or_def mustEnv_B_def
        update_hi_def update_of_fields res_ok_def candidate_text_gemini_data js_nonempty)

lemma hello_raw_nonempty: "hello_raw \<noteq> []"
  by (simp add: hello_raw_def js_def)

lemma replyText_hello: "replyText fb hello_ai = js ''Hello there''"
  by (simp add: replyText_def hello_ai_def trim_def isWhiteSpace_def js_def)


lemma POST_update_hi:
  "request_method (POST_request (Some update_hi)) = js ''POST''"
  "json (POST_request (Some update_hi)) = Some update_hi"
  "headers_get (POST_request b) h = None"
  "truthy (chatId_of update_hi)" "truthy (userText_of update_hi)"
  "chatId_of update_hi = Some (JNum 42)" "userText_of update_hi = Some (JStr (js ''hi''))"
  by (simp_all add: POST_request_def update_hi_def update_of_fields js_nonempty)

lemma is_set_None: "e name = None \<Longrightarrow> \<not> is_set e name"
  by (simp add: is_set_def)

lemma no_secret: "e (js ''TELEGRAM_WEBHOOK_SECRET'') = None \<Longrightarrow> \<not> secret_rejects e req"
  by (simp add: secret_rejects_def)


section \<open>The claims\<close>

text \<open>
  C1. A POST request passes the secret check and its payload gives a usable chat id and
  message text. Then both handlers answer 200 with body \<open>{ok:true}\<close> whatever the two
  outbound calls do, so also when the completion call or the send call fails; and when
  the completion step fails, the run holds no call to the messaging platform.
\<close>

theorem failures_masked:
  assumes "request_method req = js ''POST''" and "\<not> secret_rejects e req"
    and "json req = Some update"
    and "truthy (chatId_of update)" and "truthy (userText_of update)"
  shows "fst (handler_A P e req) = Response (JSON_stringify (JObj [(js ''ok'', JBool True)])) 200
       \<and> fst (handler_B P e req) = Response (JSON_stringify (JObj [(js ''ok'', JBool True)])) 200
       \<and> (is_set e (js ''TELEGRAM_BOT_TOKEN'') \<and> is_set e (js ''GEMINI_API_KEY'')
            \<and> is_set e (js ''AI_SYSTEM_PROMPT'') \<and> fst (completion_A P e update) = Inl err \<longrightarrow>
           filter is_telegram_call (snd (handler_A P e req)) = [])
       \<and> (is_set e (js ''TELEGRAM_BOT_TOKEN'') \<and> fst (completion_B P e update) = Inl err' \<longrightarrow>
           filter is_telegram_call (snd (handler_B P e req)) = [])"
proof -
  have "fst (handler_A P e req) = ok_true"
    using assms by (rule handler_A_response_POST)
  moreover have "fst (handler_B P e req) = ok_true"
    using assms by (rule handler_B_response_POST)
  moreover have "filter is_telegram_call (snd (handler_A P e req)) = []"
    if "is_set e (js ''TELEGRAM_BOT_TOKEN'')" "is_set e (js ''GEMINI_API_KEY'')"
       "is_set e (js ''AI_SYSTEM_PROMPT'')" "fst (completion_A P e update) = Inl err"
    using assms that by (rule handler_A_completion_failed)
  moreover have "filter is_telegram_call (snd (handler_B P e req)) = []"
    if "is_set e (js ''TELEGRAM_BOT_TOKEN'')" "fst (completion_B P e update) = Inl err'"
    using assms that by (rule handler_B_completion_failed)
  ultimately show ?thesis
    by (simp add: ok_true_def)
qed

theorem failures_masked_witness:
  "request_method (POST_request (Some update_hi)) = js ''POST''
   \<and> \<not> secret_rejects env_full (POST_request (Some update_hi))
   \<and> json (POST_request (Some update_hi)) = Some update_hi
   \<and> truthy (chatId_of update_hi) \<and> truthy (userText_of update_hi)
   \<and> is_set env_full (js ''TELEGRAM_BOT_TOKEN'') \<and> is_set env_full (js ''GEMINI_API_KEY'')
   \<and> is_set env_full (js ''AI_SYSTEM_PROMPT'')
   \<and> fst (completion_A offline env_full update_hi) = Inl (RuntimeError FetchCall)
   \<and> fst (completion_B offline env_full update_hi) = Inl (RuntimeError FetchCall)
   \<and> fst (handler_A offline env_full (POST_request (Some update_hi)))
       = Response (JSON_stringify (JObj [(js ''ok'', JBool True)])) 200
   \<and> fst (handler_B offline env_full (POST_request (Some update_hi)))
       = Response (JSON_stringify (JObj [(js ''ok'', JBool True)])) 200
   \<and> filter is_telegram_call (snd (handler_A offline env_full (POST_request (Some update_hi)))) = []
   \<and> filter is_telegram_call (snd (handler_B offline env_full (POST_request (Some update_hi)))) = []"
proof -
  have hyps: "request_method (POST_request (Some update_hi)) = js ''POST''"
    "\<not> secret_rejects env_full (POST_request (Some update_hi))"
    "json (POST_request (Some update_hi)) = Some update_hi"
    "truthy (chatId_of update_hi)" "truthy (userText_of update_hi)"
    by (simp_all add: POST_request_def secret_rejects_def env_full_values update_hi_def
        update_of_fields js_nonempty)
  have sets: "is_set env_full (js ''TELEGRAM_BOT_TOKEN'')" "is_set env_full (js ''GEMINI_API_KEY'')"
    "is_set env_full (js ''AI_SYSTEM_PROMPT'')" "is_set env_full (js ''JIM_API_KEY'')"
    by (simp_all add: is_set_def env_full_values js_nonempty)
  have failA: "fst (completion_A offline env_full update_hi) = Inl (RuntimeError FetchCall)"
    by (simp add: completion_A_def callGemini_A_def offline_def)
  have failB: "fst (completion_B offline env_full update_hi) = Inl (RuntimeError FetchCall)"
    by (simp add: completion_B_def callGemini_B_def offline_def mustEnv_B_set sets)
  from failures_masked [OF hyps, of offline "RuntimeError FetchCall" "RuntimeError FetchCall"]
    hyps sets failA failB
  show ?thesis by simp
qed

text \<open>
  C2, as amended. A mandatory variable of the environment is absent. Then the run makes
  no outbound call, and the error of \<open>mustEnv\<close> is thrown inside the \<open>try\<close> block: it is
  logged and answered with 200 and body \<open>{ok:true}\<close>. Variant A does so for every POST
  request, before the secret check and the parsing of the payload. Variant B does so for
  every POST request when the bot token is absent; when only its completion key or the
  template is absent, the error arises in the completion step, for a request that passed
  the secret check with a usable chat id and text.
\<close>

theorem missing_env_masked:
  "(\<not> (is_set e (js ''TELEGRAM_BOT_TOKEN'') \<and> is_set e (js ''GEMINI_API_KEY'')
        \<and> is_set e (js ''AI_SYSTEM_PROMPT'')) \<longrightarrow>
      outbound (snd (handler_A P e req)) = []
      \<and> (request_method req = js ''POST'' \<longrightarrow>
           (\<exists>name. handler_A P e req =
              (Response (JSON_stringify (JObj [(js ''ok'', JBool True)])) 200,
               [ConsoleError [LErr (Error (js ''Missing env var: '' @ name))]]))))
   \<and> (\<not> (is_set e (js ''TELEGRAM_BOT_TOKEN'') \<and> is_set e (js ''JIM_API_KEY'')
        \<and> is_set e (js ''AI_SYSTEM_PROMPT'')) \<longrightarrow>
      outbound (snd (handler_B P e req)) = []
      \<and> (request_method req = js ''POST''
           \<and> (is_set e (js ''TELEGRAM_BOT_TOKEN'') \<longrightarrow>
                \<not> secret_rejects e req \<and> json req = Some update
                \<and> truthy (chatId_of update) \<and> truthy (userText_of update)) \<longrightarrow>
           (\<exists>name. handler_B P e req =
              (Response (JSON_stringify (JObj [(js ''ok'', JBool True)])) 200,
               [ConsoleError [LStr (js ''Webhook Error:''),
                              LErr (Error (js ''Missing required environment variable: '' @ name))]]))))"
proof (intro conjI impI)
  assume unset: "\<not> (is_set e (js ''TELEGRAM_BOT_TOKEN'') \<and> is_set e (js ''GEMINI_API_KEY'')
        \<and> is_set e (js ''AI_SYSTEM_PROMPT''))"
  show "outbound (snd (handler_A P e req)) = []"
  proof (cases "request_method req = js ''POST''")
    case True
    from try_A_unset [OF True unset, of P] show ?thesis
      by (auto simp: handler_A_def outbound_def)
  next
    case False
    then show ?thesis by (simp add: handler_A_def try_A_def outbound_def)
  qed
  assume "request_method req = js ''POST''"
  from try_A_unset [OF this unset, of P]
  show "\<exists>name. handler_A P e req =
              (Response (JSON_stringify (JObj [(js ''ok'', JBool True)])) 200,
               [ConsoleError [LErr (Error (js ''Missing env var: '' @ name))]])"
    by (auto simp: handler_A_def ok_true_def)
next
  assume unset: "\<not> (is_set e (js ''TELEGRAM_BOT_TOKEN'') \<and> is_set e (js ''JIM_API_KEY'')
        \<and> is_set e (js ''AI_SYSTEM_PROMPT''))"
  show "outbound (snd (handler_B P e req)) = []"
  proof (cases "is_set e (js ''TELEGRAM_BOT_TOKEN'')")
    case False
    then show ?thesis
      by (simp add: handler_B_def try_B_def outbound_def mustEnv_B_unset)
  next
    case True
    with unset have "\<not> (is_set e (js ''JIM_API_KEY'') \<and> is_set e (js ''AI_SYSTEM_PROMPT''))"
      by simp
    then have fails: "\<exists>name. completion_B P e u =
        (Inl (Error (js ''Missing required environment variable: '' @ name)), [])" for u
      unfolding completion_B_def by (rule callGemini_B_unset)
    show ?thesis
    proof (cases "request_method req = js ''POST'' \<and> \<not> secret_rejects e req \<and> json req \<noteq> None")
      case False
      with True show ?thesis
        by (auto simp: handler_B_def try_B_def mustEnv_B_set outbound_def)
    next
      case parsed: True
      then obtain u where u: "json req = Some u" by auto
      from fails [of u] obtain name where "completion_B P e u =
        (Inl (Error (js ''Missing required environment variable: '' @ name)), [])" by blast
      with parsed True u show ?thesis
        by (simp add: handler_B_def try_B_parsed outbound_def)
    qed
  qed
  assume post: "request_method req = js ''POST''
           \<and> (is_set e (js ''TELEGRAM_BOT_TOKEN'') \<longrightarrow>
                \<not> secret_rejects e req \<and> json req = Some update
                \<and> truthy (chatId_of update) \<and> truthy (userText_of update))"
  show "\<exists>name. handler_B P e req =
              (Response (JSON_stringify (JObj [(js ''ok'', JBool True)])) 200,
               [ConsoleError [LStr (js ''Webhook Error:''),
                              LErr (Error (js ''Missing required environment variable: '' @ name))]])"
  proof (cases "is_set e (js ''TELEGRAM_BOT_TOKEN'')")
    case False
    with post show ?thesis
      by (simp add: handler_B_def try_B_def mustEnv_B_unset ok_true_def)
  next
    case True
    with unset have "\<not> (is_set e (js ''JIM_API_KEY'') \<and> is_set e (js ''AI_SYSTEM_PROMPT''))"
      by simp
    from callGemini_B_unset [OF this, of P "the (userText_of update)"
        "env_or e (js ''BOOKING_LINK'') default_BOOKING_LINK"]
    obtain name where "completion_B P e update =
        (Inl (Error (js ''Missing required environment variable: '' @ name)), [])"
      unfolding completion_B_def by blast
    with post True show ?thesis
      by (simp add: handler_B_def try_B_parsed ok_true_def)
  qed
qed


theorem missing_env_masked_witness:
  "\<not> (is_set (env_of []) (js ''TELEGRAM_BOT_TOKEN'') \<and> is_set (env_of []) (js ''GEMINI_API_KEY'')
       \<and> is_set (env_of []) (js ''AI_SYSTEM_PROMPT''))
   \<and> request_method (POST_request (Some update_hi)) = js ''POST''
   \<and> outbound (snd (handler_A offline (env_of []) (POST_request (Some update_hi)))) = []
   \<and> (\<exists>name. handler_A offline (env_of []) (POST_request (Some update_hi)) =
         (Response (JSON_stringify (JObj [(js ''ok'', JBool True)])) 200, [ConsoleError [LErr (Error (js ''Missing env var: '' @ name))]]))
   \<and> \<not> (is_set env_no_JIM (js ''TELEGRAM_BOT_TOKEN'') \<and> is_set env_no_JIM (js ''JIM_API_KEY'')
       \<and> is_set env_no_JIM (js ''AI_SYSTEM_PROMPT''))
   \<and> is_set env_no_JIM (js ''TELEGRAM_BOT_TOKEN'')
   \<and> \<not> secret_rejects env_no_JIM (POST_request (Some update_hi))
   \<and> json (POST_request (Some update_hi)) = Some update_hi
   \<and> truthy (chatId_of update_hi) \<and> truthy (userText_of update_hi)
   \<and> outbound (snd (handler_B offline env_no_JIM (POST_request (Some update_hi)))) = []
   \<and> (\<exists>name. handler_B offline env_no_JIM (POST_request (Some update_hi)) =
         (Response (JSON_stringify (JObj [(js ''ok'', JBool True)])) 200,
          [ConsoleError [LStr (js ''Webhook Error:''),
                         LErr (Error (js ''Missing required environment variable: '' @ name))]]))"
proof -
  have a: "\<not> (is_set (env_of []) (js ''TELEGRAM_BOT_TOKEN'') \<and> is_set (env_of []) (js ''GEMINI_API_KEY'')
       \<and> is_set (env_of []) (js ''AI_SYSTEM_PROMPT''))"
    by (simp add: is_set_def env_of_def)
  have b: "\<not> (is_set env_no_JIM (js ''TELEGRAM_BOT_TOKEN'') \<and> is_set env_no_JIM (js ''JIM_API_KEY'')
       \<and> is_set env_no_JIM (js ''AI_SYSTEM_PROMPT''))"
    "is_set env_no_JIM (js ''TELEGRAM_BOT_TOKEN'')"
    by (simp_all add: is_set_def env_no_JIM_values js_nonempty)
  have req: "request_method (POST_request (Some update_hi)) = js ''POST''"
    "\<not> secret_rejects env_no_JIM (POST_request (Some update_hi))"
    "json (POST_request (Some update_hi)) = Some update_hi"
    "truthy (chatId_of update_hi)" "truthy (userText_of update_hi)"
    by (simp_all add: POST_request_def secret_rejects_def env_no_JIM_values update_hi_def
        update_of_fields js_nonempty)
  from missing_env_masked [of "env_of []" offline "POST_request (Some update_hi)" update_hi]
    missing_env_masked [of env_no_JIM offline "POST_request (Some update_hi)" update_hi]
    a b req
  show ?thesis by simp
qed

theorem missing_env_counterexample:
  "\<not> is_set (env_of []) (js ''TELEGRAM_BOT_TOKEN'')
   \<and> handler_A offline (env_of []) (POST_request (Some update_hi)) =
       (Response (JSON_stringify (JObj [(js ''ok'', JBool True)])) 200,
        [ConsoleError [LErr (Error (js ''Missing env var: '' @ js ''TELEGRAM_BOT_TOKEN''))]])
   \<and> handler_B offline (env_of []) (POST_request (Some update_hi)) =
       (Response (JSON_stringify (JObj [(js ''ok'', JBool True)])) 200,
        [ConsoleError [LStr (js ''Webhook Error:''),
                       LErr (Error (js ''Missing required environment variable: ''
                                      @ js ''TELEGRAM_BOT_TOKEN''))]])
   \<and> \<not> is_set env_no_JIM (js ''JIM_API_KEY'')
   \<and> handler_B offline env_no_JIM (POST_request (Some update_photo)) = (Response (JSON_stringify (JObj [(js ''ok'', JBool True), (js ''ignored'', JBool True)])) 200, [])"
proof -
  have "\<not> is_set (env_of []) (js ''TELEGRAM_BOT_TOKEN'')"
    by (simp add: is_set_def env_of_def)
  moreover from this have "handler_A offline (env_of []) (POST_request (Some update_hi)) =
       (Response (JSON_stringify (JObj [(js ''ok'', JBool True)])) 200,
        [ConsoleError [LErr (Error (js ''Missing env var: '' @ js ''TELEGRAM_BOT_TOKEN''))]])"
    by (simp add: handler_A_def try_A_def mustEnv_A_unset POST_request_def ok_true_def)
  moreover from calculation(1) have "handler_B offline (env_of []) (POST_request (Some update_hi)) =
       (Response (JSON_stringify (JObj [(js ''ok'', JBool True)])) 200,
        [ConsoleError [LStr (js ''Webhook Error:''),
                       LErr (Error (js ''Missing required environment variable: ''
                                      @ js ''TELEGRAM_BOT_TOKEN''))]])"
    by (simp add: handler_B_def try_B_def mustEnv_B_unset POST_request_def ok_true_def)
  moreover have "\<not> is_set env_no_JIM (js ''JIM_API_KEY'')"
    by (simp add: is_set_def env_no_JIM_values)
  moreover have "handler_B offline env_no_JIM (POST_request (Some update_photo)) = (Response (JSON_stringify (JObj [(js ''ok'', JBool True), (js ''ignored'', JBool True)])) 200, [])"
  proof -
    have "is_set env_no_JIM (js ''TELEGRAM_BOT_TOKEN'')"
      by (simp add: is_set_def env_no_JIM_values js_nonempty)
    moreover have "\<not> secret_rejects env_no_JIM (POST_request (Some update_photo))"
      by (simp add: secret_rejects_def env_no_JIM_values)
    ultimately show ?thesis
      by (simp add: handler_B_def try_B_parsed [where update = update_photo] POST_request_def
          update_photo_fields ok_ignored_def)
  qed
  ultimately show ?thesis by blast
qed

text \<open>
  C3. A request whose method is not POST is answered 405, "Method Not Allowed", by both
  handlers; the run has no event at all, so no outbound call, and the answer does not
  depend on the payload, which is never read.
\<close>

theorem method_gate:
  "request_method req \<noteq> js ''POST'' \<Longrightarrow>
     handler_A P e (req\<lparr>json := b\<rparr>) = (Response (Text (js ''Method Not Allowed'')) 405, [])
   \<and> handler_B P e (req\<lparr>json := b\<rparr>) = (Response (Text (js ''Method Not Allowed'')) 405, [])"
  by (simp add: handler_A_def handler_B_def try_A_def try_B_def method_not_allowed_def)

theorem method_gate_witness:
  "request_method GET_request \<noteq> js ''POST''
   \<and> handler_A offline (env_of []) GET_request = (Response (Text (js ''Method Not Allowed'')) 405, [])
   \<and> handler_B offline (env_of []) GET_request = (Response (Text (js ''Method Not Allowed'')) 405, [])"
  using method_gate [of GET_request offline "env_of []" None]
  by (simp add: GET_request_def js_def)

text \<open>
  C4, as amended. The request is a POST and the mandatory variables that the handler
  reads before the check are set (all three in variant A, the bot token in variant B).
  When \<open>TELEGRAM_WEBHOOK_SECRET\<close> is set and the header
  \<open>x-telegram-bot-api-secret-token\<close> is absent or differs from it, the answer is 401,
  "Unauthorized", and the run has no event, so no outbound call; the answer is the same
  for every payload, also one that does not parse: the check comes before the parsing.
\<close>

theorem secret_gate:
  assumes "request_method req = js ''POST''"
    and "e (js ''TELEGRAM_WEBHOOK_SECRET'') = Some secret" and "secret \<noteq> []"
    and "headers_get req (js ''x-telegram-bot-api-secret-token'') \<noteq> Some secret"
  shows "(is_set e (js ''TELEGRAM_BOT_TOKEN'') \<and> is_set e (js ''GEMINI_API_KEY'')
           \<and> is_set e (js ''AI_SYSTEM_PROMPT'') \<longrightarrow>
          handler_A P e (req\<lparr>json := b\<rparr>) = (Response (Text (js ''Unauthorized'')) 401, []))
       \<and> (is_set e (js ''TELEGRAM_BOT_TOKEN'') \<longrightarrow>
          handler_B P e (req\<lparr>json := b\<rparr>) = (Response (Text (js ''Unauthorized'')) 401, []))"
  using assms
  by (simp add: handler_A_def handler_B_def try_A_def try_B_def mustEnv_A_set mustEnv_B_set
      secret_rejects_def unauthorized_def)

theorem secret_gate_witness:
  "request_method (POST_request None) = js ''POST''
   \<and> env_secret (js ''TELEGRAM_WEBHOOK_SECRET'') = Some (js ''s3cret'') \<and> js ''s3cret'' \<noteq> []
   \<and> headers_get (POST_request None) (js ''x-telegram-bot-api-secret-token'') \<noteq> Some (js ''s3cret'')
   \<and> is_set env_secret (js ''TELEGRAM_BOT_TOKEN'') \<and> is_set env_secret (js ''GEMINI_API_KEY'')
   \<and> is_set env_secret (js ''AI_SYSTEM_PROMPT'')
   \<and> handler_A offline env_secret (POST_request (Some update_hi)) = (Response (Text (js ''Unauthorized'')) 401, [])
   \<and> handler_B offline env_secret (POST_request (Some update_hi)) = (Response (Text (js ''Unauthorized'')) 401, [])"
proof -
  have hyps: "request_method (POST_request None) = js ''POST''"
    "env_secret (js ''TELEGRAM_WEBHOOK_SECRET'') = Some (js ''s3cret'')" "js ''s3cret'' \<noteq> []"
    "headers_get (POST_request None) (js ''x-telegram-bot-api-secret-token'') \<noteq> Some (js ''s3cret'')"
    by (simp_all add: POST_request_def env_secret_values js_nonempty)
  have sets: "is_set env_secret (js ''TELEGRAM_BOT_TOKEN'')" "is_set env_secret (js ''GEMINI_API_KEY'')"
    "is_set env_secret (js ''AI_SYSTEM_PROMPT'')"
    by (simp_all add: is_set_def env_secret_values js_nonempty)
  from secret_gate [where req = "POST_request None" and e = env_secret and secret = "js ''s3cret''"
      and P = offline and b = "Some update_hi"] hyps sets
  show ?thesis by (simp add: POST_request_def)
qed

theorem secret_gate_counterexample:
  "env_secret (js ''TELEGRAM_WEBHOOK_SECRET'') = Some (js ''s3cret'')
   \<and> headers_get GET_request (js ''x-telegram-bot-api-secret-token'') = None
   \<and> handler_A offline env_secret GET_request = (Response (Text (js ''Method Not Allowed'')) 405, [])
   \<and> handler_B offline env_secret GET_request = (Response (Text (js ''Method Not Allowed'')) 405, [])
   \<and> env_secret_only (js ''TELEGRAM_WEBHOOK_SECRET'') = Some (js ''s3cret'')
   \<and> headers_get (POST_request None) (js ''x-telegram-bot-api-secret-token'') = None
   \<and> fst (handler_A offline env_secret_only (POST_request None)) = Response (JSON_stringify (JObj [(js ''ok'', JBool True)])) 200
   \<and> fst (handler_B offline env_secret_only (POST_request None)) = Response (JSON_stringify (JObj [(js ''ok'', JBool True)])) 200"
proof -
  have "request_method GET_request \<noteq> js ''POST''"
    by (simp add: GET_request_def js_def)
  then have "handler_A offline env_secret GET_request = (Response (Text (js ''Method Not Allowed'')) 405, [])"
    "handler_B offline env_secret GET_request = (Response (Text (js ''Method Not Allowed'')) 405, [])"
    by (simp_all add: handler_A_def handler_B_def try_A_def try_B_def method_not_allowed_def)
  moreover have "\<not> is_set env_secret_only (js ''TELEGRAM_BOT_TOKEN'')"
    by (simp add: is_set_def env_secret_only_values)
  then have "fst (handler_A offline env_secret_only (POST_request None)) = Response (JSON_stringify (JObj [(js ''ok'', JBool True)])) 200"
    "fst (handler_B offline env_secret_only (POST_request None)) = Response (JSON_stringify (JObj [(js ''ok'', JBool True)])) 200"
    by (simp_all add: handler_A_def handler_B_def try_A_def try_B_def mustEnv_A_unset
        mustEnv_B_unset POST_request_def ok_true_def)
  ultimately show ?thesis
    by (simp add: env_secret_values env_secret_only_values GET_request_def POST_request_def)
qed

text \<open>
  C5. The handler parses the payload in line 69 (208), for a POST request that passed the
  secret check, with the mandatory variables read before that line set. When
  \<open>message.chat.id\<close> or \<open>message.text\<close> of the parsed payload is absent, whatever the
  shape of the payload, both handlers answer 200 with body \<open>{ok:true, ignored:true}\<close>,
  and the run has no event, so no outbound call.
\<close>

theorem ignored_when_field_absent:
  assumes "request_method req = js ''POST''" and "\<not> secret_rejects e req"
    and "json req = Some update"
    and "chatId_of update = None \<or> userText_of update = None"
  shows "(is_set e (js ''TELEGRAM_BOT_TOKEN'') \<and> is_set e (js ''GEMINI_API_KEY'')
           \<and> is_set e (js ''AI_SYSTEM_PROMPT'') \<longrightarrow>
          handler_A P e req =
            (Response (JSON_stringify (JObj [(js ''ok'', JBool True), (js ''ignored'', JBool True)])) 200, []))
       \<and> (is_set e (js ''TELEGRAM_BOT_TOKEN'') \<longrightarrow>
          handler_B P e req =
            (Response (JSON_stringify (JObj [(js ''ok'', JBool True), (js ''ignored'', JBool True)])) 200, []))"
  using assms
  by (auto simp: handler_A_def handler_B_def try_A_parsed try_B_parsed ok_ignored_def)

theorem ignored_when_field_absent_witness:
  "request_method (POST_request (Some update_photo)) = js ''POST''
   \<and> \<not> secret_rejects env_full (POST_request (Some update_photo))
   \<and> json (POST_request (Some update_photo)) = Some update_photo
   \<and> userText_of update_photo = None
   \<and> is_set env_full (js ''TELEGRAM_BOT_TOKEN'') \<and> is_set env_full (js ''GEMINI_API_KEY'')
   \<and> is_set env_full (js ''AI_SYSTEM_PROMPT'')
   \<and> handler_A offline env_full (POST_request (Some update_photo)) = (Response (JSON_stringify (JObj [(js ''ok'', JBool True), (js ''ignored'', JBool True)])) 200, [])
   \<and> handler_B offline env_full (POST_request (Some update_photo)) = (Response (JSON_stringify (JObj [(js ''ok'', JBool True), (js ''ignored'', JBool True)])) 200, [])"
proof -
  have hyps: "request_method (POST_request (Some update_photo)) = js ''POST''"
    "\<not> secret_rejects env_full (POST_request (Some update_photo))"
    "json (POST_request (Some update_photo)) = Some update_photo"
    "chatId_of update_photo = None \<or> userText_of update_photo = None"
    by (simp_all add: POST_request_def secret_rejects_def env_full_values update_photo_fields)
  have sets: "is_set env_full (js ''TELEGRAM_BOT_TOKEN'')" "is_set env_full (js ''GEMINI_API_KEY'')"
    "is_set env_full (js ''AI_SYSTEM_PROMPT'')"
    by (simp_all add: is_set_def env_full_values js_nonempty)
  from ignored_when_field_absent [where req = "POST_request (Some update_photo)" and e = env_full
      and update = update_photo and P = offline] hyps sets update_photo_fields(2)
  show ?thesis by simp
qed







text \<open>
  C8. The completion service answers 200 with a text that \<open>JSON.parse\<close> rejects. The
  completion client of lines 135-182 logs the text and fails with its own error,
  "Gemini returned malformed JSON." (\<open>callGemini_B_malformed_JSON\<close>); the one of lines
  24-49 lets the exception of \<open>JSON.parse\<close> through and logs nothing: on the answer
  \<open>not json\<close> its run holds the outbound call only.
\<close>

theorem callGemini_A_raw_parser_exception:
  "completion_A (answering (js ''not json'') None) env_full update_hi =
     (Inl (RuntimeError JSONParse),
      [Fetch (gemini_url default_GEMINI_MODEL (js ''k1''))
             (gemini_body (replaceAll (js ''Offer {{BOOKING_LINK}}'') BOOKING_LINK_placeholder
                             default_BOOKING_LINK) (JStr (js ''hi'')))])
   \<and> completion_B (answering (js ''not json'') None) env_full update_hi =
     (Inl (Error (js ''Gemini returned malformed JSON.'')),
      [Fetch (gemini_url default_GEMINI_MODEL (js ''k1''))
             (gemini_body (replaceAll (js ''Offer {{BOOKING_LINK}}'') BOOKING_LINK_placeholder
                             default_BOOKING_LINK) (JStr (js ''hi''))),
       ConsoleError [LStr (js ''Invalid JSON from Gemini:''), LVal (JStr (js ''not json''))]])"
  by (simp add: answering_completion_A answering_completion_B env_full_values js_nonempty)

text \<open>
  C9, as amended. In an environment where \<open>AI_SYSTEM_PROMPT\<close> is set and
  \<open>GEMINI_API_KEY\<close> and \<open>JIM_API_KEY\<close> are set to the same value, the two handlers give
  the same response and the same outbound calls, or outbound calls that differ only in
  the fallback text of the one call to the messaging platform.
\<close>

theorem variants_agree:
  assumes "is_set e (js ''AI_SYSTEM_PROMPT'')" and "is_set e (js ''GEMINI_API_KEY'')"
    and "e (js ''JIM_API_KEY'') = e (js ''GEMINI_API_KEY'')"
  shows "fst (handler_A P e req) = fst (handler_B P e req)
       \<and> (outbound (snd (handler_A P e req)) = outbound (snd (handler_B P e req))
          \<or> (\<exists>g url chat.
                outbound (snd (handler_A P e req)) = [g, Fetch url (telegram_body chat fallback_A)]
              \<and> outbound (snd (handler_B P e req)) = [g, Fetch url (telegram_body chat fallback_B)]))"
proof (cases "request_method req = js ''POST'' \<and> is_set e (js ''TELEGRAM_BOT_TOKEN'')
              \<and> \<not> secret_rejects e req \<and> json req \<noteq> None")
  case False
  then consider
      (wrong_method) "request_method req \<noteq> js ''POST''"
    | (no_token) "request_method req = js ''POST''" "\<not> is_set e (js ''TELEGRAM_BOT_TOKEN'')"
    | (bad_secret) "request_method req = js ''POST''" "is_set e (js ''TELEGRAM_BOT_TOKEN'')"
        "secret_rejects e req"
    | (no_body) "request_method req = js ''POST''" "is_set e (js ''TELEGRAM_BOT_TOKEN'')"
        "\<not> secret_rejects e req" "json req = None"
    by auto
  then show ?thesis
  proof cases
    case wrong_method
    then show ?thesis
      by (simp add: handler_A_def handler_B_def try_A_def try_B_def)
  next
    case no_token
    then show ?thesis
      by (simp add: handler_A_def handler_B_def try_A_def try_B_def mustEnv_A_unset
          mustEnv_B_unset outbound_def)
  next
    case bad_secret
    with assms(1,2) show ?thesis
      by (simp add: handler_A_def handler_B_def try_A_def try_B_def mustEnv_A_set mustEnv_B_set)
  next
    case no_body
    with assms(1,2) show ?thesis
      by (simp add: handler_A_def handler_B_def try_A_def try_B_def mustEnv_A_set mustEnv_B_set
          outbound_def)
  qed
next
  case True
  then obtain update where u: "json req = Some update" by auto
  from True have post: "request_method req = js ''POST''" and bot: "is_set e (js ''TELEGRAM_BOT_TOKEN'')"
    and sec: "\<not> secret_rejects e req" by simp_all
  from assms have jim: "is_set e (js ''JIM_API_KEY'')" by (simp add: is_set_def)
  show ?thesis
  proof (cases "truthy (chatId_of update) \<and> truthy (userText_of update)")
    case False
    with post bot sec u assms(1,2) show ?thesis
      by (auto simp: handler_A_def handler_B_def try_A_parsed try_B_parsed)
  next
    case usable: True
    then have chat_ok: "truthy (chatId_of update)" and text_ok: "truthy (userText_of update)"
      by simp_all
    have rA: "fst (handler_A P e req) = ok_true"
      using post sec u chat_ok text_ok by (rule handler_A_response_POST)
    have rB: "fst (handler_B P e req) = ok_true"
      using post sec u chat_ok text_ok by (rule handler_B_response_POST)
    from callGemini_agree [OF jim assms(1), of P "the (userText_of update)"
        "env_or e (js ''BOOKING_LINK'') default_BOOKING_LINK"] assms(3)
    have agree: "isl (fst (completion_A P e update)) \<longleftrightarrow> isl (fst (completion_B P e update))"
      "\<And>ai. fst (completion_A P e update) = Inr ai \<longleftrightarrow> fst (completion_B P e update) = Inr ai"
      "outbound (snd (completion_A P e update)) = outbound (snd (completion_B P e update))"
      by (simp_all add: completion_A_def completion_B_def)
    have one: "\<exists>g. outbound (snd (completion_A P e update)) = [g]"
      by (simp add: completion_A_def callGemini_A_trace outbound_def)
    show ?thesis
    proof (cases "fst (completion_A P e update)")
      case (Inl err)
      then have "isl (fst (completion_A P e update))" by simp
      moreover from this agree(1) have "isl (fst (completion_B P e update))" by simp
      ultimately have "outbound (snd (handler_A P e req)) = outbound (snd (handler_B P e req))"
        using post sec u chat_ok text_ok bot assms(1,2) agree(3)
        by (simp add: handler_A_failed_outbound handler_B_failed_outbound)
      with rA rB show ?thesis by simp
    next
      case (Inr ai)
      with agree(2) [of ai] have "fst (completion_B P e update) = Inr ai" by blast
      with post sec u chat_ok text_ok bot have
        oB: "outbound (snd (handler_B P e req)) =
               outbound (snd (completion_B P e update))
               @ [Fetch (telegram_url (the (e (js ''TELEGRAM_BOT_TOKEN''))))
                        (telegram_body (the (chatId_of update)) (replyText fallback_B ai))]"
        by (rule handler_B_sent)
      from post sec u chat_ok text_ok bot assms(2,1) Inr have
        oA: "outbound (snd (handler_A P e req)) =
               outbound (snd (completion_A P e update))
               @ [Fetch (telegram_url (the (e (js ''TELEGRAM_BOT_TOKEN''))))
                        (telegram_body (the (chatId_of update)) (replyText fallback_A ai))]"
        by (rule handler_A_sent)
      from one obtain g where g: "outbound (snd (completion_A P e update)) = [g]" by blast
      from replyText_fallbacks [of ai] show ?thesis
      proof
        assume "replyText fallback_A ai = replyText fallback_B ai"
        with oA oB agree(3) rA rB show ?thesis by simp
      next
        assume fb: "replyText fallback_A ai = fallback_A \<and> replyText fallback_B ai = fallback_B"
        from oA g fb have a: "outbound (snd (handler_A P e req)) =
            [g, Fetch (telegram_url (the (e (js ''TELEGRAM_BOT_TOKEN''))))
                      (telegram_body (the (chatId_of update)) fallback_A)]"
          by simp
        from oB agree(3) g fb have b: "outbound (snd (handler_B P e req)) =
            [g, Fetch (telegram_url (the (e (js ''TELEGRAM_BOT_TOKEN''))))
                      (telegram_body (the (chatId_of update)) fallback_B)]"
          by simp
        from a b have "\<exists>g url chat.
                outbound (snd (handler_A P e req)) = [g, Fetch url (telegram_body chat fallback_A)]
              \<and> outbound (snd (handler_B P e req)) = [g, Fetch url (telegram_body chat fallback_B)]"
          by blast
        with rA rB show ?thesis by simp
      qed
    qed
  qed
qed


theorem variants_agree_witness:
  "is_set env_full (js ''AI_SYSTEM_PROMPT'') \<and> is_set env_full (js ''GEMINI_API_KEY'')
   \<and> env_full (js ''JIM_API_KEY'') = env_full (js ''GEMINI_API_KEY'')
   \<and> fst (handler_A (answering (js ''{}'') (Some (JObj []))) env_full (POST_request (Some update_hi)))
       = fst (handler_B (answering (js ''{}'') (Some (JObj []))) env_full (POST_request (Some update_hi)))
   \<and> (outbound (snd (handler_A (answering (js ''{}'') (Some (JObj []))) env_full
                       (POST_request (Some update_hi))))
        = outbound (snd (handler_B (answering (js ''{}'') (Some (JObj []))) env_full
                       (POST_request (Some update_hi))))
      \<or> (\<exists>g url chat.
            outbound (snd (handler_A (answering (js ''{}'') (Some (JObj []))) env_full
                       (POST_request (Some update_hi))))
              = [g, Fetch url (telegram_body chat fallback_A)]
          \<and> outbound (snd (handler_B (answering (js ''{}'') (Some (JObj []))) env_full
                       (POST_request (Some update_hi))))
              = [g, Fetch url (telegram_body chat fallback_B)]))"
proof -
  have hyps: "is_set env_full (js ''AI_SYSTEM_PROMPT'')" "is_set env_full (js ''GEMINI_API_KEY'')"
    "env_full (js ''JIM_API_KEY'') = env_full (js ''GEMINI_API_KEY'')"
    by (simp_all add: is_set_def env_full_values js_nonempty)
  from variants_agree [OF hyps, of "answering (js ''{}'') (Some (JObj []))"
      "POST_request (Some update_hi)"] hyps
  show ?thesis by simp
qed

theorem variants_agree_counterexample:
  "outbound (snd (handler_A (answering hello_raw (Some hello_ai)) env_no_JIM
                    (POST_request (Some update_hi)))) =
     [Fetch (gemini_url default_GEMINI_MODEL (js ''k1''))
            (gemini_body (replaceAll (js ''Offer {{BOOKING_LINK}}'') BOOKING_LINK_placeholder
                            default_BOOKING_LINK) (JStr (js ''hi''))),
      Fetch (telegram_url (js ''123:abc'')) (telegram_body (JNum 42) (js ''Hello there''))]
   \<and> outbound (snd (handler_B (answering hello_raw (Some hello_ai)) env_no_JIM
                    (POST_request (Some update_hi)))) = []
   \<and> fst (handler_A offline env_no_prompt (POST_request None))
       = Response (JSON_stringify (JObj [(js ''ok'', JBool True)])) 200
   \<and> fst (handler_B offline env_no_prompt (POST_request None))
       = Response (Text (js ''Unauthorized'')) 401"
proof -
  let ?P = "answering hello_raw (Some hello_ai)"
  let ?req = "POST_request (Some update_hi)"
  have req: "request_method ?req = js ''POST''" "\<not> secret_rejects env_no_JIM ?req"
    "json ?req = Some update_hi" "truthy (chatId_of update_hi)" "truthy (userText_of update_hi)"
    by (simp_all add: POST_update_hi no_secret env_no_JIM_values js_nonempty)
  have sets: "is_set env_no_JIM (js ''TELEGRAM_BOT_TOKEN'')" "is_set env_no_JIM (js ''GEMINI_API_KEY'')"
    "is_set env_no_JIM (js ''AI_SYSTEM_PROMPT'')"
    by (simp_all add: is_set_def env_no_JIM_values js_nonempty)
  have cA: "completion_A ?P env_no_JIM update_hi =
     (Inr hello_ai,
      [Fetch (gemini_url default_GEMINI_MODEL (js ''k1''))
             (gemini_body (replaceAll (js ''Offer {{BOOKING_LINK}}'') BOOKING_LINK_placeholder
                             default_BOOKING_LINK) (JStr (js ''hi'')))])"
    by (simp add: answering_completion_A hello_raw_nonempty env_no_JIM_values)
  then have "fst (completion_A ?P env_no_JIM update_hi) = Inr hello_ai" by simp
  from handler_A_sent [OF req sets this] cA
  have a: "outbound (snd (handler_A ?P env_no_JIM ?req)) =
     [Fetch (gemini_url default_GEMINI_MODEL (js ''k1''))
            (gemini_body (replaceAll (js ''Offer {{BOOKING_LINK}}'') BOOKING_LINK_placeholder
                            default_BOOKING_LINK) (JStr (js ''hi''))),
      Fetch (telegram_url (js ''123:abc'')) (telegram_body (JNum 42) (js ''Hello there''))]"
    by (simp add: outbound_def env_no_JIM_values POST_update_hi replyText_hello)
  have "completion_B ?P env_no_JIM update_hi =
          (Inl (Error (js ''Missing required environment variable: '' @ js ''JIM_API_KEY'')), [])"
    by (simp add: completion_B_def callGemini_B_def mustEnv_B_unset is_set_None env_no_JIM_values)
  with req sets(1) have b: "outbound (snd (handler_B ?P env_no_JIM ?req)) = []"
    by (simp add: handler_B_def try_B_parsed outbound_def)
  have "\<not> is_set env_no_prompt (js ''AI_SYSTEM_PROMPT'')"
    "is_set env_no_prompt (js ''TELEGRAM_BOT_TOKEN'')" "is_set env_no_prompt (js ''GEMINI_API_KEY'')"
    by (simp_all add: is_set_def env_no_prompt_values js_nonempty)
  moreover have "secret_rejects env_no_prompt (POST_request None)"
    by (simp add: secret_rejects_def env_no_prompt_values POST_request_def js_nonempty)
  ultimately have c: "fst (handler_A offline env_no_prompt (POST_request None))
       = Response (JSON_stringify (JObj [(js ''ok'', JBool True)])) 200"
    and d: "fst (handler_B offline env_no_prompt (POST_request None))
       = Response (Text (js ''Unauthorized'')) 401"
    by (simp_all add: handler_A_def handler_B_def try_A_def try_B_def mustEnv_A_set
        mustEnv_A_unset mustEnv_B_set POST_request_def ok_true_def unauthorized_def)
  from a b c d show ?thesis by simp
qed


text \<open>
  C10. The parsed payload of line 69 (208) has a field that is present and falsy:
  \<open>message.chat.id\<close> is the number 0 or the empty string, or \<open>message.text\<close> is the
  empty string. The handlers treat it as an absent one: both answer 200 with body
  \<open>{ok:true, ignored:true}\<close> and the run has no event, so no outbound call.
\<close>

theorem ignored_when_field_falsy:
  assumes "request_method req = js ''POST''" and "\<not> secret_rejects e req"
    and "json req = Some update"
    and "chatId_of update = Some (JNum 0) \<or> chatId_of update = Some (JStr [])
         \<or> userText_of update = Some (JStr [])"
  shows "(is_set e (js ''TELEGRAM_BOT_TOKEN'') \<and> is_set e (js ''GEMINI_API_KEY'')
           \<and> is_set e (js ''AI_SYSTEM_PROMPT'') \<longrightarrow>
          handler_A P e req =
            (Response (JSON_stringify (JObj [(js ''ok'', JBool True), (js ''ignored'', JBool True)])) 200, []))
       \<and> (is_set e (js ''TELEGRAM_BOT_TOKEN'') \<longrightarrow>
          handler_B P e req =
            (Response (JSON_stringify (JObj [(js ''ok'', JBool True), (js ''ignored'', JBool True)])) 200, []))"
  using assms
  by (auto simp: handler_A_def handler_B_def try_A_parsed try_B_parsed ok_ignored_def)

theorem ignored_when_field_falsy_witness:
  "request_method (POST_request (Some (update_of (JNum 0) (JStr (js ''hi''))))) = js ''POST''
   \<and> \<not> secret_rejects env_full (POST_request (Some (update_of (JNum 0) (JStr (js ''hi'')))))
   \<and> json (POST_request (Some (update_of (JNum 0) (JStr (js ''hi''))))) = Some (update_of (JNum 0) (JStr (js ''hi'')))
   \<and> chatId_of (update_of (JNum 0) (JStr (js ''hi''))) = Some (JNum 0)
   \<and> is_set env_full (js ''TELEGRAM_BOT_TOKEN'') \<and> is_set env_full (js ''GEMINI_API_KEY'')
   \<and> is_set env_full (js ''AI_SYSTEM_PROMPT'')
   \<and> handler_A offline env_full (POST_request (Some (update_of (JNum 0) (JStr (js ''hi''))))) = (Response (JSON_stringify (JObj [(js ''ok'', JBool True), (js ''ignored'', JBool True)])) 200, [])
   \<and> handler_B offline env_full (POST_request (Some (update_of (JNum 0) (JStr (js ''hi''))))) = (Response (JSON_stringify (JObj [(js ''ok'', JBool True), (js ''ignored'', JBool True)])) 200, [])"
proof -
  let ?u = "update_of (JNum 0) (JStr (js ''hi''))"
  have hyps: "request_method (POST_request (Some ?u)) = js ''POST''"
    "\<not> secret_rejects env_full (POST_request (Some ?u))"
    "json (POST_request (Some ?u)) = Some ?u"
    "chatId_of ?u = Some (JNum 0) \<or> chatId_of ?u = Some (JStr []) \<or> userText_of ?u = Some (JStr [])"
    by (simp_all add: POST_request_def secret_rejects_def env_full_values update_of_fields)
  have sets: "is_set env_full (js ''TELEGRAM_BOT_TOKEN'')" "is_set env_full (js ''GEMINI_API_KEY'')"
    "is_set env_full (js ''AI_SYSTEM_PROMPT'')"
    by (simp_all add: is_set_def env_full_values js_nonempty)
  from ignored_when_field_falsy [where req = "POST_request (Some ?u)" and e = env_full
      and update = ?u and P = offline] hyps sets update_of_fields(1) [of "JNum 0" "JStr (js ''hi'')"]
  show ?thesis by simp
qed


end
